theory Spec2Isabelle
  imports Main
begin

chapter \<open>The model\<close>

section \<open>Python values used by the image generators\<close>

text \<open>
  A Python \<^verbatim>\<open>str\<close> is a sequence of Unicode code points: the generators test
  \<^verbatim>\<open>line.startswith('\<bullet>')\<close> and \<^verbatim>\<open>'...' in line\<close> on Korean text, so a string is
  modelled as the list of its code points. \<open>ascii\<close> turns an ASCII literal into that form.
\<close>

type_synonym pystr = "nat list"

definition ascii :: "string \<Rightarrow> pystr" where
  "ascii s = map of_char s"

text \<open>\<^verbatim>\<open>s.startswith(p)\<close>\<close>

fun startswith :: "pystr \<Rightarrow> pystr \<Rightarrow> bool" where
  "startswith s [] = True"
| "startswith [] (p # ps) = False"
| "startswith (c # cs) (p # ps) = (c = p \<and> startswith cs ps)"

text \<open>\<^verbatim>\<open>sub in s\<close>: \<open>sub\<close> occurs in \<open>s\<close> as a contiguous run.\<close>

fun contains :: "pystr \<Rightarrow> pystr \<Rightarrow> bool" where
  "contains [] sub = (sub = [])"
| "contains (c # cs) sub = (startswith (c # cs) sub \<or> contains cs sub)"


text \<open>The string constants the layout rules test for.\<close>

definition bullet :: pystr where
  "bullet = [8226]"  \<comment> \<open>U+2022\<close>

definition kw_ticket :: pystr where
  "kw_ticket = [54000, 53011]"  \<comment> \<open>U+D2F0 U+CF13\<close>

definition kw_price :: pystr where
  "kw_price = [44032, 44201]"  \<comment> \<open>U+AC00 U+ACA9\<close>

text \<open>
  Exceptions are values. The generators catch with a bare \<^verbatim>\<open>except:\<close> (or
  \<^verbatim>\<open>except Exception\<close>), so the handlers never look at which error it was.
\<close>

datatype pyerr = OSError | FileNotFoundError | FileExistsError | IsADirectoryError
  | PermissionError | AttributeError | TypeError | ValueError | UnicodeEncodeError

text \<open>
  A font object: \<^verbatim>\<open>ImageFont.truetype(path, size)\<close> gives a FreeType font that remembers
  its \<^verbatim>\<open>path\<close>; \<^verbatim>\<open>ImageFont.load_default()\<close> gives the built-in bitmap font, which has
  no \<^verbatim>\<open>path\<close> attribute.
\<close>

datatype font = FreeTypeFont pystr int | DefaultFont

text \<open>A colour is a name or hex string, or an RGB triple.\<close>

datatype color = ColorName pystr | RGB int int int

type_synonym point = "int \<times> int"

text \<open>
  The canvas is the ordered log of the calls made on the \<^verbatim>\<open>ImageDraw\<close> object: what
  reaches the renderer, in the order it is drawn.
\<close>

datatype draw_cmd =
    DrawText point pystr color font "pystr option"
      \<comment> \<open>\<^verbatim>\<open>draw.text(xy, text, fill, font, anchor)\<close>\<close>
  | DrawRectangle point point "color option" "color option" int
      \<comment> \<open>\<^verbatim>\<open>draw.rectangle([p0, p1], fill, outline, width)\<close>\<close>
  | DrawRoundedRectangle point point int "color option" "color option" int
      \<comment> \<open>\<^verbatim>\<open>draw.rounded_rectangle([p0, p1], radius, fill, outline, width)\<close>\<close>
  | DrawArc point point int int color int
      \<comment> \<open>\<^verbatim>\<open>draw.arc([p0, p1], start, end, fill, width)\<close>\<close>
  | DrawLine point point color int
      \<comment> \<open>\<^verbatim>\<open>draw.line([p0, p1], fill, width)\<close>\<close>

fun text_x :: "draw_cmd \<Rightarrow> int option" where
  "text_x (DrawText (x, y) s c f a) = Some x"
| "text_x _ = None"

fun text_y :: "draw_cmd \<Rightarrow> int option" where
  "text_y (DrawText (x, y) s c f a) = Some y"
| "text_y _ = None"

fun text_payload :: "draw_cmd \<Rightarrow> pystr option" where
  "text_payload (DrawText p s c f a) = Some s"
| "text_payload _ = None"

fun text_fill :: "draw_cmd \<Rightarrow> color option" where
  "text_fill (DrawText p s c f a) = Some c"
| "text_fill _ = None"

fun text_anchor :: "draw_cmd \<Rightarrow> pystr option" where
  "text_anchor (DrawText p s c f a) = a"
| "text_anchor _ = None"

section \<open>The host and the library calls\<close>

text \<open>
  What the generators read and change outside themselves:
  \<^item> \<open>path_exists\<close>: the answer of \<^verbatim>\<open>os.path.exists\<close> (asked of font paths only);
  \<^item> \<open>load_error\<close>: the error \<^verbatim>\<open>ImageFont.truetype(path, size)\<close> raises, if any;
  \<^item> \<open>handles\<close>: the font assets opened so far, newest first (the side effect of
    loading a font);
  \<^item> \<open>dirs\<close>: the directories that exist, other than the current one (the empty path);
  \<^item> \<open>readonly\<close>: the directories in which nothing can be created or written;
  \<^item> \<open>files\<close>: the images written so far, newest first, with the canvas each holds.
\<close>

record world =
  path_exists :: "pystr \<Rightarrow> bool"
  load_error :: "pystr \<Rightarrow> int \<Rightarrow> pyerr option"
  handles :: "(pystr \<times> int) list"
  dirs :: "pystr list"
  readonly :: "pystr list"
  files :: "(pystr \<times> draw_cmd list) list"

text \<open>
  A statement that may raise and may change the host: it returns the error or the value,
  and the host after it.
\<close>

type_synonym 'a io = "world \<Rightarrow> (pyerr + 'a) \<times> world"

definition io_return :: "'a \<Rightarrow> 'a io" where
  "io_return a w = (Inr a, w)"

text \<open>Sequencing: an exception in the first statement skips the rest.\<close>

definition io_bind :: "'a io \<Rightarrow> ('a \<Rightarrow> 'b io) \<Rightarrow> 'b io" where
  "io_bind m f w = (case m w of (Inl e, w') \<Rightarrow> (Inl e, w') | (Inr a, w') \<Rightarrow> f a w')"

text \<open>\<^verbatim>\<open>try: m  except: handler\<close>, the bare \<^verbatim>\<open>except\<close> that catches every error.\<close>

definition io_try :: "'a io \<Rightarrow> 'a io \<Rightarrow> 'a io" where
  "io_try m handler w = (case m w of (Inl e, w') \<Rightarrow> handler w' | (Inr a, w') \<Rightarrow> (Inr a, w'))"

subsection \<open>Fonts\<close>

definition truetype :: "pystr \<Rightarrow> int \<Rightarrow> font io" where
  "truetype path pt w =
     (case load_error w path pt of
        Some e \<Rightarrow> (Inl e, w)
      | None \<Rightarrow> (Inr (FreeTypeFont path pt), w\<lparr>handles := (path, pt) # handles w\<rparr>))"

definition load_default :: font where
  "load_default = DefaultFont"

text \<open>
  The loop every generator of \<^verbatim>\<open>create-test-event-image.py\<close> and \<^verbatim>\<open>create-test-image.py\<close>
  runs over its \<^verbatim>\<open>font_paths\<close>:
  \<^verbatim>\<open>
  font = None
  for font_path in font_paths:
      if os.path.exists(font_path):
          font = ImageFont.truetype(font_path, size)
          break
  \<close>
  The first path that exists is loaded and the loop ends there; an error of that load leaves
  the loop as an exception.
\<close>

fun font_paths_loop :: "pystr list \<Rightarrow> int \<Rightarrow> font option io" where
  "font_paths_loop [] pt w = (Inr None, w)"
| "font_paths_loop (font_path # rest) pt w =
     (if path_exists w font_path
      then io_bind (truetype font_path pt) (\<lambda>font. io_return (Some font)) w
      else font_paths_loop rest pt w)"

subsection \<open>Output files\<close>

text \<open>
  \<^verbatim>\<open>os.path.dirname\<close> (POSIX): the part before the last slash, without trailing slashes
  unless it is nothing but slashes. Code point 47 is the slash.
\<close>

definition dirname :: "pystr \<Rightarrow> pystr" where
  "dirname p =
     (let head = rev (dropWhile (\<lambda>c. c \<noteq> 47) (rev p))
      in if head \<noteq> [] \<and> \<not> list_all (\<lambda>c. c = 47) head
         then rev (dropWhile (\<lambda>c. c = 47) (rev head)) else head)"

definition path_join :: "pystr \<Rightarrow> pystr \<Rightarrow> pystr" where
  "path_join a b =
     (if b \<noteq> [] \<and> hd b = 47 then b
      else if a = [] \<or> last a = 47 then a @ b else a @ [47] @ b)"

definition dir_exists :: "world \<Rightarrow> pystr \<Rightarrow> bool" where
  "dir_exists w d = (d = [] \<or> d \<in> set (dirs w))"






text \<open>
  \<^verbatim>\<open>image.save(filename)\<close>: Pillow opens the file for writing and writes the encoded
  image. It makes no directory; the file must be creatable where it is named. What the
  file holds is recorded as the canvas. (Pillow takes the format from the extension of the
  name and refuses one it does not know; every name the scripts use ends in \<^verbatim>\<open>.png\<close>, and
  that check is left out.)
\<close>

definition image_save :: "pystr \<Rightarrow> draw_cmd list \<Rightarrow> unit io" where
  "image_save filename canvas w =
     (if filename = [] \<or> \<not> dir_exists w (dirname filename) then (Inl FileNotFoundError, w)
      else if dir_exists w filename then (Inl IsADirectoryError, w)
      else if dirname filename \<in> set (readonly w) then (Inl PermissionError, w)
      else (Inr (), w\<lparr>files := (filename, canvas) # files w\<rparr>))"

section \<open>create-test-event-image.py\<close>

definition black :: color where "black = ColorName (ascii ''black'')"
definition white :: color where "white = ColorName (ascii ''white'')"

subsection \<open>\<^verbatim>\<open>create_test_event_image\<close>\<close>

definition event_font_paths :: "pystr list" where
  "event_font_paths =
    [ascii ''/System/Library/Fonts/AppleSDGothicNeo.ttc'',
     ascii ''/System/Library/Fonts/Helvetica.ttc'',
     ascii ''/usr/share/fonts/truetype/nanum/NanumGothic.ttf'',
     ascii ''/usr/share/fonts/truetype/liberation/LiberationSans-Regular.ttf'',
     ascii ''C:'' @ [92] @ ascii ''Windows'' @ [92] @ ascii ''Fonts'' @ [92] @ ascii ''malgun.ttf'',
     ascii ''C:'' @ [92] @ ascii ''Windows'' @ [92] @ ascii ''Fonts'' @ [92] @ ascii ''Arial.ttf'']"

text \<open>
  The font block, with the list of paths as a parameter:
  \<^verbatim>\<open>
  try:
      font = None
      for font_path in font_paths: ...            # size 32
      if not font:
          font = ImageFont.load_default()
      title_font = font
      body_font = ImageFont.truetype(font.path, 24) if hasattr(font, 'path') else font
  except:
      font = ImageFont.load_default()
      title_font = font
      body_font = font
  \<close>
  It gives \<open>(title_font, body_font)\<close>.
\<close>

definition event_fonts_try :: "pystr list \<Rightarrow> (font \<times> font) io" where
  "event_fonts_try font_paths =
     io_bind (font_paths_loop font_paths 32) (\<lambda>found.
       let font = (case found of None \<Rightarrow> load_default | Some f \<Rightarrow> f);
           title_font = font
       in case font of
            FreeTypeFont path pt \<Rightarrow>
              io_bind (truetype path 24) (\<lambda>body_font. io_return (title_font, body_font))
          | DefaultFont \<Rightarrow> io_return (title_font, font))"

definition event_fonts :: "pystr list \<Rightarrow> (font \<times> font) io" where
  "event_fonts font_paths =
     io_try (event_fonts_try font_paths) (io_return (load_default, load_default))"



text \<open>
  \<^verbatim>\<open>
  y_position = 120
  for line in details:
      draw.text((50, y_position), line, fill='black', font=body_font)
      y_position += 35
  \<close>
  The loop state is the canvas and \<^verbatim>\<open>y_position\<close>.
\<close>

fun details_loop :: "font \<Rightarrow> pystr list \<Rightarrow> draw_cmd list \<times> int \<Rightarrow> draw_cmd list \<times> int" where
  "details_loop body_font [] st = st"
| "details_loop body_font (line # rest) (canvas, y_position) =
     details_loop body_font rest
       (canvas @ [DrawText (50, y_position) line black body_font None], y_position + 35)"


subsection \<open>\<^verbatim>\<open>create_concert_poster\<close>\<close>

definition concert_font_paths :: "pystr list" where
  "concert_font_paths =
    [ascii ''/System/Library/Fonts/AppleSDGothicNeo.ttc'',
     ascii ''/System/Library/Fonts/Helvetica.ttc'',
     ascii ''/usr/share/fonts/truetype/nanum/NanumGothicBold.ttf'',
     ascii ''C:'' @ [92] @ ascii ''Windows'' @ [92] @ ascii ''Fonts'' @ [92] @ ascii ''malgunbd.ttf'']"

text \<open>
  The font block gives \<open>(title_font, subtitle_font, body_font)\<close>: the first existing path
  at size 48, then the same path again at 36 and at 28, all inside one \<^verbatim>\<open>try\<close>.
\<close>

definition concert_fonts_try :: "pystr list \<Rightarrow> (font \<times> font \<times> font) io" where
  "concert_fonts_try font_paths =
     io_bind (font_paths_loop font_paths 48) (\<lambda>found.
       let font = (case found of None \<Rightarrow> load_default | Some f \<Rightarrow> f);
           title_font = font
       in case font of
            FreeTypeFont path pt \<Rightarrow>
              io_bind (truetype path 36) (\<lambda>subtitle_font.
              io_bind (truetype path 28) (\<lambda>body_font.
                io_return (title_font, subtitle_font, body_font)))
          | DefaultFont \<Rightarrow> io_return (title_font, font, font))"

definition concert_fonts :: "pystr list \<Rightarrow> (font \<times> font \<times> font) io" where
  "concert_fonts font_paths =
     io_try (concert_fonts_try font_paths)
       (io_return (load_default, load_default, load_default))"

definition gold :: color where "gold = ColorName (ascii ''#f39c12'')"

definition concert_info :: "pystr list" where
  "concert_info =
    [[],
     [50, 48, 50, 53, 45380, 32, 51, 50900, 32, 50, 50, 51068, 32, 53664, 50836, 51068],
     [50724, 54980, 32, 54, 58, 48, 48, 32, 45, 32, 49, 49, 58, 48, 48],
     [],
     [49436, 50872, 32, 50732, 47548, 54589, 44277, 50896],
     [50732, 47548, 54589, 54848],
     [],
     [52636, 50672, 32, 50500, 54000, 49828, 53944, 58],
     [8226, 32, 50500, 51060, 50976],
     [8226, 32, 66, 84, 83],
     [8226, 32, 78, 101, 119, 74, 101, 97, 110, 115],
     [8226, 32, 50501, 48036],
     [],
     [54000, 53011, 32, 50724, 54536, 58],
     [50, 48, 50, 53, 45380, 32, 50, 50900, 32, 49, 51068, 32, 50724, 54980, 32, 50, 49884],
     [],
     [44032, 44201, 58, 32, 57, 57, 44, 48, 48, 48, 50896, 32, 126, 32, 49, 53, 48, 44, 48, 48,
      48, 50896],
     [],
     [50696, 47588, 58, 32, 119, 119, 119, 46, 115, 112, 114, 105, 110, 103, 102, 101, 115, 116,
      46, 107, 114]]"

text \<open>
  \<^verbatim>\<open>
  y_position = 300
  for line in concert_info:
      x_position = 50 if line.startswith('\<bullet>') else width//2 - 150
      color = '#f39c12' if kw_ticket in line or kw_price in line else 'white'
      draw.text((x_position, y_position), line, fill=color, font=body_font)
      y_position += 40
  \<close>
  The loop state is the canvas and \<^verbatim>\<open>y_position\<close>; \<^verbatim>\<open>width\<close> is the local of the
  enclosing function (800 there). Python's \<^verbatim>\<open>//\<close> rounds down, as \<open>div\<close> on \<open>int\<close> does.
\<close>

fun concert_info_loop ::
  "int \<Rightarrow> font \<Rightarrow> pystr list \<Rightarrow> draw_cmd list \<times> int \<Rightarrow> draw_cmd list \<times> int" where
  "concert_info_loop width body_font [] st = st"
| "concert_info_loop width body_font (line # rest) (canvas, y_position) =
     (let x_position = (if startswith line bullet then 50 else width div 2 - 150);
          color = (if contains line kw_ticket \<or> contains line kw_price then gold else white)
      in concert_info_loop width body_font rest
           (canvas @ [DrawText (x_position, y_position) line color body_font None],
            y_position + 40))"


subsection \<open>\<^verbatim>\<open>create_meeting_notice\<close>\<close>


text \<open>The font block gives \<open>(title_font, body_font)\<close>: size 24 for the body, 28 for the title.\<close>

definition meeting_fonts_try :: "pystr list \<Rightarrow> (font \<times> font) io" where
  "meeting_fonts_try font_paths =
     io_bind (font_paths_loop font_paths 24) (\<lambda>found.
       let font = (case found of None \<Rightarrow> load_default | Some f \<Rightarrow> f)
       in case font of
            FreeTypeFont path pt \<Rightarrow>
              io_bind (truetype path 28) (\<lambda>title_font. io_return (title_font, font))
          | DefaultFont \<Rightarrow> io_return (font, font))"

definition meeting_fonts :: "pystr list \<Rightarrow> (font \<times> font) io" where
  "meeting_fonts font_paths =
     io_try (meeting_fonts_try font_paths) (io_return (load_default, load_default))"







subsection \<open>The script's main block\<close>


section \<open>create-test-image.py\<close>

definition test_image_font_paths :: "pystr list" where
  "test_image_font_paths =
    [ascii ''/System/Library/Fonts/AppleSDGothicNeo.ttc'',
     ascii ''/Library/Fonts/AppleGothicRegular.ttf'',
     ascii ''/System/Library/Fonts/Helvetica.ttc'']"

text \<open>
  The font block of \<^verbatim>\<open>create_test_image\<close>, with the list of paths as a parameter:
  \<^verbatim>\<open>
  try:
      font = None
      for font_path in font_paths: ...            # size 40
      if not font:
          font = ImageFont.load_default()
  except:
      font = ImageFont.load_default()
  \<close>
\<close>

definition test_image_font_try :: "pystr list \<Rightarrow> font io" where
  "test_image_font_try font_paths =
     io_bind (font_paths_loop font_paths 40) (\<lambda>found.
       io_return (case found of None \<Rightarrow> load_default | Some f \<Rightarrow> f))"

definition test_image_font :: "pystr list \<Rightarrow> font io" where
  "test_image_font font_paths = io_try (test_image_font_try font_paths) (io_return load_default)"




section \<open>create_test_poster.py\<close>

text \<open>
  What the installed Pillow can do. A method that is missing raises \<^verbatim>\<open>AttributeError\<close>
  when called, so a missing method and a failing one are both an error value:
  \<^item> \<open>textbbox\<close>: \<^verbatim>\<open>draw.textbbox(xy, text, font=font)\<close>, the precise box
    \<open>(left, top, right, bottom)\<close>;
  \<^item> \<open>textsize\<close>: \<^verbatim>\<open>draw.textsize(text, font=font)\<close>, the coarse \<open>(width, height)\<close>;
  \<^item> \<open>arc_error\<close>: the error \<^verbatim>\<open>draw.arc([p0, p1], 0, 90, fill=..., width=3)\<close> raises, if
    any.
  The other drawing calls (\<^verbatim>\<open>text\<close>, \<^verbatim>\<open>rectangle\<close>, \<^verbatim>\<open>rounded_rectangle\<close>, \<^verbatim>\<open>line\<close>)
  are taken to succeed: they only add their command to the canvas.
\<close>

record pil =
  textbbox :: "point \<Rightarrow> pystr \<Rightarrow> font \<Rightarrow> pyerr + (int \<times> int \<times> int \<times> int)"
  textsize :: "pystr \<Rightarrow> font \<Rightarrow> pyerr + (int \<times> int)"
  arc_error :: "point \<Rightarrow> point \<Rightarrow> pyerr option"

definition err_bind :: "pyerr + 'a \<Rightarrow> ('a \<Rightarrow> pyerr + 'b) \<Rightarrow> pyerr + 'b" where
  "err_bind m f = (case m of Inl e \<Rightarrow> Inl e | Inr a \<Rightarrow> f a)"

subsection \<open>\<^verbatim>\<open>create_korean_poster\<close>\<close>

definition korean_font_paths :: "pystr list" where
  "korean_font_paths =
    [ascii ''/System/Library/Fonts/AppleSDGothicNeo.ttc'',
     ascii ''/System/Library/Fonts/Helvetica.ttc'',
     ascii ''/Windows/Fonts/malgun.ttf'',
     ascii ''/usr/share/fonts/truetype/noto/NotoSansCJK-Regular.ttc'']"

text \<open>
  The font block gives \<open>(title_font, subtitle_font, body_font, small_font)\<close>. Here the loop
  only picks the first path that exists; the four loads come after it, and an error in any
  of them makes all four fonts the default one.
\<close>

definition korean_fonts_try :: "pystr list \<Rightarrow> (font \<times> font \<times> font \<times> font) io" where
  "korean_fonts_try paths w =
     (case find (path_exists w) paths of
        Some font_path \<Rightarrow>
          (if font_path \<noteq> [] then
             io_bind (truetype font_path 72) (\<lambda>title_font.
             io_bind (truetype font_path 48) (\<lambda>subtitle_font.
             io_bind (truetype font_path 36) (\<lambda>body_font.
             io_bind (truetype font_path 28) (\<lambda>small_font.
               io_return (title_font, subtitle_font, body_font, small_font))))) w
           else io_return (load_default, load_default, load_default, load_default) w)
      | None \<Rightarrow> io_return (load_default, load_default, load_default, load_default) w)"

definition korean_fonts :: "pystr list \<Rightarrow> (font \<times> font \<times> font \<times> font) io" where
  "korean_fonts paths =
     io_try (korean_fonts_try paths)
       (io_return (load_default, load_default, load_default, load_default))"

definition event_title :: pystr where
  "event_title = [50, 48, 50, 53, 32, 75, 45, 80, 79, 80, 32, 54168, 49828, 54000, 48268]"

definition event_date :: pystr where
  "event_date = [50, 48, 50, 53, 45380, 32, 57, 50900, 32, 49, 53, 51068, 32, 40, 53664, 41]"

definition event_time :: pystr where
  "event_time = [50724, 54980, 32, 55, 49884, 32, 51, 48, 48516]"

definition event_location :: pystr where
  "event_location =
     [51104, 49892, 32, 50732, 47548, 54589, 44277, 50896, 32, 75, 83, 80, 79, 46036]"

definition event_price :: pystr where
  "event_price =
     [86, 73, 80, 32, 49, 53, 48, 44, 48, 48, 48, 50896, 32, 47, 32, 51068, 48152, 32, 56,
      48, 44, 48, 48, 48, 50896]"

text \<open>
  \<^verbatim>\<open>
  def get_centered_x(text, font):
      try:
          bbox = draw.textbbox((0, 0), text, font=font)
          text_width = bbox[2] - bbox[0]
          return (width - text_width) // 2
      except:
          # Fallback for older PIL versions
          text_width = draw.textsize(text, font=font)[0]
          return (width - text_width) // 2
  \<close>
  \<^verbatim>\<open>draw\<close> and \<^verbatim>\<open>width\<close> are variables of the enclosing function. The handler is not
  itself guarded: an error of \<^verbatim>\<open>textsize\<close> leaves the function.
\<close>

definition get_centered_x :: "pil \<Rightarrow> int \<Rightarrow> pystr \<Rightarrow> font \<Rightarrow> pyerr + int" where
  "get_centered_x draw width text font =
     (case textbbox draw (0, 0) text font of
        Inr (b0, b1, b2, b3) \<Rightarrow>
          (let text_width = b2 - b0 in Inr ((width - text_width) div 2))
      | Inl e \<Rightarrow>
          err_bind (textsize draw text font) (\<lambda>(w, h).
            let text_width = w in Inr ((width - text_width) div 2)))"

text \<open>
  The width of the location line, measured the same way for the box behind it:
  \<^verbatim>\<open>
  try:
      location_bbox = draw.textbbox((0, 0), event_location, font=body_font)
      location_width = location_bbox[2] - location_bbox[0]
  except:
      location_width = draw.textsize(event_location, font=body_font)[0]
  \<close>
\<close>

definition location_width_of :: "pil \<Rightarrow> pystr \<Rightarrow> font \<Rightarrow> pyerr + int" where
  "location_width_of draw text font =
     (case textbbox draw (0, 0) text font of
        Inr (b0, b1, b2, b3) \<Rightarrow> Inr (b2 - b0)
      | Inl e \<Rightarrow> err_bind (textsize draw text font) (\<lambda>(w, h). Inr w))"

text \<open>
  \<^verbatim>\<open>
  corner_size = 50
  for corner in [(50, 50), (width-50-corner_size, 50),
                 (50, height-50-corner_size), (width-50-corner_size, height-50-corner_size)]:
      try:
          draw.arc([corner, (corner[0]+corner_size, corner[1]+corner_size)], 0, 90,
                   fill=accent_color, width=3)
      except:
          # Simple rectangle for older PIL versions
          draw.rectangle([corner, (corner[0]+10, corner[1]+10)], fill=accent_color)
  \<close>
\<close>

definition draw_arc ::
  "pil \<Rightarrow> point \<Rightarrow> point \<Rightarrow> int \<Rightarrow> int \<Rightarrow> color \<Rightarrow> int \<Rightarrow> pyerr + draw_cmd" where
  "draw_arc draw p0 p1 start stop fill width =
     (case arc_error draw p0 p1 of
        Some e \<Rightarrow> Inl e
      | None \<Rightarrow> Inr (DrawArc p0 p1 start stop fill width))"

fun corners_loop ::
  "pil \<Rightarrow> int \<Rightarrow> color \<Rightarrow> point list \<Rightarrow> draw_cmd list \<Rightarrow> pyerr + draw_cmd list" where
  "corners_loop draw corner_size accent_color [] canvas = Inr canvas"
| "corners_loop draw corner_size accent_color (corner # rest) canvas =
     (case draw_arc draw corner (fst corner + corner_size, snd corner + corner_size) 0 90
             accent_color 3 of
        Inr cmd \<Rightarrow> corners_loop draw corner_size accent_color rest (canvas @ [cmd])
      | Inl e \<Rightarrow>
          corners_loop draw corner_size accent_color rest
            (canvas @ [DrawRectangle corner (fst corner + 10, snd corner + 10)
                         (Some accent_color) None 1]))"

definition corners :: "int \<Rightarrow> int \<Rightarrow> int \<Rightarrow> point list" where
  "corners width height corner_size =
     [(50, 50), (width - 50 - corner_size, 50),
      (50, height - 50 - corner_size), (width - 50 - corner_size, height - 50 - corner_size)]"

text \<open>
  The drawing part of \<^verbatim>\<open>create_korean_poster\<close>, statement by statement. An exception
  anywhere ends the function, and the image built so far is lost with it.
\<close>

definition korean_poster_draw ::
  "pil \<Rightarrow> font \<times> font \<times> font \<times> font \<Rightarrow> pyerr + draw_cmd list" where
  "korean_poster_draw draw fonts =
     (case fonts of (title_font, subtitle_font, body_font, small_font) \<Rightarrow>
      let width = 800; height = 1200;
          title_color = RGB 0 0 0; accent_color = RGB 220 20 60; text_color = RGB 40 40 40
      in
      err_bind (get_centered_x draw width event_title title_font) (\<lambda>title_x.
      let title_y = 100;
          c1 = [DrawText (title_x, title_y) event_title title_color title_font None];
          line_y = title_y + 100;
          c2 = c1 @ [DrawRectangle (50, line_y) (width - 50, line_y + 5) (Some accent_color) None 1];
          date_y = line_y + 60
      in
      err_bind (get_centered_x draw width event_date subtitle_font) (\<lambda>date_x.
      let c3 = c2 @ [DrawText (date_x, date_y) event_date accent_color subtitle_font None];
          time_y = date_y + 70
      in
      err_bind (get_centered_x draw width event_time body_font) (\<lambda>time_x.
      let c4 = c3 @ [DrawText (time_x, time_y) event_time text_color body_font None];
          location_y = time_y + 120
      in
      err_bind (get_centered_x draw width event_location body_font) (\<lambda>location_x.
      let box_padding = 20
      in
      err_bind (location_width_of draw event_location body_font) (\<lambda>location_width.
      let c5 = c4 @ [DrawRoundedRectangle
                       (location_x - box_padding, location_y - box_padding)
                       (location_x + location_width + box_padding, location_y + 50 + box_padding)
                       10 (Some (RGB 245 245 245)) (Some (RGB 200 200 200)) 2];
          c6 = c5 @ [DrawText (location_x, location_y) event_location text_color body_font None];
          price_y = location_y + 120
      in
      err_bind (get_centered_x draw width event_price small_font) (\<lambda>price_x.
      let c7 = c6 @ [DrawText (price_x, price_y) event_price text_color small_font None];
          corner_size = 50
      in
      err_bind (corners_loop draw corner_size accent_color (corners width height corner_size) c7)
        (\<lambda>c8.
      let bottom_line_y = height - 100
      in Inr (c8 @ [DrawRectangle (50, bottom_line_y) (width - 50, bottom_line_y + 3)
                      (Some accent_color) None 1])))))))))"

definition create_korean_poster :: "pil \<Rightarrow> (draw_cmd list) io" where
  "create_korean_poster draw =
     io_bind (korean_fonts korean_font_paths) (\<lambda>fonts w. (korean_poster_draw draw fonts, w))"

text \<open>
  The script's main block: \<^verbatim>\<open>poster.save("korean_kpop_festival_poster.png", "PNG", quality=95)\<close>.
\<close>

definition main_poster :: "pil \<Rightarrow> unit io" where
  "main_poster draw =
     io_bind (create_korean_poster draw) (\<lambda>poster.
       image_save (ascii ''korean_kpop_festival_poster.png'') poster)"

section \<open>test-images/test-event.py\<close>

text \<open>
  This script has a function \<^verbatim>\<open>create_test_event_image\<close> of its own; it is
  \<open>create_test_event_image_te\<close> here.
  \<^verbatim>\<open>
  try:
      title_font = ImageFont.truetype('/System/Library/Fonts/Helvetica.ttc', 48)
      body_font = ImageFont.truetype('/System/Library/Fonts/Helvetica.ttc', 32)
      small_font = ImageFont.truetype('/System/Library/Fonts/Helvetica.ttc', 24)
  except:
      title_font = ImageFont.load_default()
      body_font = ImageFont.load_default()
      small_font = ImageFont.load_default()
  \<close>
\<close>

definition helvetica :: pystr where
  "helvetica = ascii ''/System/Library/Fonts/Helvetica.ttc''"

definition test_event_fonts :: "(font \<times> font \<times> font) io" where
  "test_event_fonts =
     io_try
       (io_bind (truetype helvetica 48) (\<lambda>title_font.
        io_bind (truetype helvetica 32) (\<lambda>body_font.
        io_bind (truetype helvetica 24) (\<lambda>small_font.
          io_return (title_font, body_font, small_font)))))
       (io_return (load_default, load_default, load_default))"

text \<open>
  The drawing part: every text is drawn at \<^verbatim>\<open>(width//2, y_position)\<close> with
  \<^verbatim>\<open>anchor='mt'\<close> (the middle of the text's top edge is put at that point), the three
  bulleted lines included.
\<close>

definition mt :: "pystr option" where
  "mt = Some (ascii ''mt'')"

definition test_event_draw :: "font \<times> font \<times> font \<Rightarrow> draw_cmd list" where
  "test_event_draw fonts =
     (case fonts of (title_font, body_font, small_font) \<Rightarrow>
      let width = 800;
          black = RGB 0 0 0; blue = RGB 0 100 200; gray = RGB 100 100 100;
          y0 = 50;
          c1 = [DrawText (width div 2, y0) (ascii ''TECH CONFERENCE 2025'') blue title_font mt];
          y1 = y0 + 80;
          c2 = c1 @ [DrawLine (100, y1) (width - 100, y1) gray 2];
          y2 = y1 + 40;
          c3 = c2 @ [DrawText (width div 2, y2) (ascii ''Date: December 15, 2025'') black
                       body_font mt];
          y3 = y2 + 50;
          c4 = c3 @ [DrawText (width div 2, y3) (ascii ''Time: 2:00 PM - 6:00 PM'') black
                       body_font mt];
          y4 = y3 + 50;
          c5 = c4 @ [DrawText (width div 2, y4) (ascii ''Location: COEX Convention Center'')
                       black body_font mt];
          y5 = y4 + 50;
          c6 = c5 @ [DrawText (width div 2, y5) (ascii ''Seoul, South Korea'') gray small_font mt];
          y6 = y5 + 60;
          c7 = c6 @ [DrawLine (100, y6) (width - 100, y6) gray 2];
          y7 = y6 + 40;
          c8 = c7 @ [DrawText (width div 2, y7)
                       (ascii ''Join us for the biggest tech event of the year!'') black
                       small_font mt];
          y8 = y7 + 40;
          c9 = c8 @ [DrawText (width div 2, y8) (bullet @ ascii '' AI & Machine Learning'')
                       black small_font mt];
          y9 = y8 + 35;
          c10 = c9 @ [DrawText (width div 2, y9) (bullet @ ascii '' Cloud Computing'') black
                        small_font mt];
          y10 = y9 + 35;
          c11 = c10 @ [DrawText (width div 2, y10) (bullet @ ascii '' Web Development'') black
                         small_font mt]
      in c11)"

text \<open>
  The image goes next to the script: \<^verbatim>\<open>os.path.join(output_dir, 'tech-conference-2025.png')\<close>,
  where \<^verbatim>\<open>output_dir\<close> is the directory of the script file, a parameter here.
\<close>

definition create_test_event_image_te :: "pystr \<Rightarrow> pystr io" where
  "create_test_event_image_te output_dir =
     io_bind test_event_fonts (\<lambda>fonts.
       let output_path = path_join output_dir (ascii ''tech-conference-2025.png'')
       in io_bind (image_save output_path (test_event_draw fonts)) (\<lambda>_. io_return output_path))"

section \<open>Inputs and notions used to state the properties\<close>

text \<open>A host with no font at all, an empty current directory and nothing read-only.\<close>

definition bare_host :: world where
  "bare_host =
     \<lparr>path_exists = (\<lambda>p. False), load_error = (\<lambda>p pt. None), handles = [],
      dirs = [], readonly = [], files = []\<rparr>"

text \<open>
  A host on which the first font of every list exists but cannot be loaded, and a later
  one (Helvetica) exists and loads.
\<close>

definition broken_first_host :: world where
  "broken_first_host =
     \<lparr>path_exists = (\<lambda>p. p = ascii ''/System/Library/Fonts/AppleSDGothicNeo.ttc'' \<or>
                         p = ascii ''/System/Library/Fonts/Helvetica.ttc''),
      load_error = (\<lambda>p pt. if p = ascii ''/System/Library/Fonts/AppleSDGothicNeo.ttc''
                            then Some OSError else None),
      handles = [], dirs = [], readonly = [], files = []\<rparr>"

text \<open>
  Resolution as the specification words it: the first candidate that is both present and
  loadable at the requested size, the fallback font when there is none.
\<close>

fun resolve_spec :: "world \<Rightarrow> pystr list \<Rightarrow> int \<Rightarrow> font" where
  "resolve_spec w [] pt = DefaultFont"
| "resolve_spec w (p # ps) pt =
     (if path_exists w p \<and> load_error w p pt = None then FreeTypeFont p pt
      else resolve_spec w ps pt)"

text \<open>The lines of the specification's end-to-end example.\<close>

definition example_lines :: "pystr list" where
  "example_lines = [[], ascii ''Date: 2025-02-15'', ascii ''Location: Hall A'']"

text \<open>
  Three installations of Pillow. \<open>modern_pil\<close> has the precise box and arcs; it measures
  ten pixels a character. \<open>old_pil\<close> has neither \<^verbatim>\<open>textbbox\<close> nor the \<^verbatim>\<open>width\<close>
  argument of \<^verbatim>\<open>arc\<close>, only \<^verbatim>\<open>textsize\<close>. \<open>bitmap_pil\<close> has \<^verbatim>\<open>textbbox\<close> but no
  \<^verbatim>\<open>textsize\<close>, and its default bitmap font cannot encode a character beyond Latin-1.
\<close>

definition modern_pil :: pil where
  "modern_pil =
     \<lparr>textbbox = (\<lambda>xy text font. Inr (fst xy, snd xy, fst xy + 10 * int (length text), snd xy + 20)),
      textsize = (\<lambda>text font. Inl AttributeError),
      arc_error = (\<lambda>p0 p1. None)\<rparr>"

definition old_pil :: pil where
  "old_pil =
     \<lparr>textbbox = (\<lambda>xy text font. Inl AttributeError),
      textsize = (\<lambda>text font. Inr (10 * int (length text), 20)),
      arc_error = (\<lambda>p0 p1. Some TypeError)\<rparr>"

definition bitmap_pil :: pil where
  "bitmap_pil =
     \<lparr>textbbox = (\<lambda>xy text font.
         if font = DefaultFont \<and> list_ex (\<lambda>c. 255 < c) text then Inl UnicodeEncodeError
         else Inr (fst xy, snd xy, fst xy + 10 * int (length text), snd xy + 20)),
      textsize = (\<lambda>text font. Inl AttributeError),
      arc_error = (\<lambda>p0 p1. None)\<rparr>"

text \<open>An installation that measures sixty pixels a character.\<close>

definition wide_pil :: pil where
  "wide_pil =
     \<lparr>textbbox = (\<lambda>xy text font. Inr (fst xy, snd xy, fst xy + 60 * int (length text), snd xy + 72)),
      textsize = (\<lambda>text font. Inl AttributeError),
      arc_error = (\<lambda>p0 p1. None)\<rparr>"


chapter \<open>Properties\<close>

section \<open>Auxiliary lemmas\<close>

subsection \<open>Font blocks\<close>

lemma ascii_eq_iff: "ascii s = ascii t \<longleftrightarrow> s = t"
  by (simp add: ascii_def inj_map_eq_map inj_on_def)

lemma broken_first_host_find:
  "find (path_exists broken_first_host) test_image_font_paths
     = Some (ascii ''/System/Library/Fonts/AppleSDGothicNeo.ttc'')"
  "find (path_exists broken_first_host) event_font_paths
     = Some (ascii ''/System/Library/Fonts/AppleSDGothicNeo.ttc'')"
  "find (path_exists broken_first_host) concert_font_paths
     = Some (ascii ''/System/Library/Fonts/AppleSDGothicNeo.ttc'')"
  by (simp_all add: test_image_font_paths_def event_font_paths_def concert_font_paths_def
      broken_first_host_def)

lemma font_paths_loop_find:
  "font_paths_loop ps pt w =
     (case find (path_exists w) ps of
        None \<Rightarrow> (Inr None, w)
      | Some p \<Rightarrow>
          (case load_error w p pt of
             Some e \<Rightarrow> (Inl e, w)
           | None \<Rightarrow> (Inr (Some (FreeTypeFont p pt)), w\<lparr>handles := (p, pt) # handles w\<rparr>)))"
  by (induction ps) (simp_all add: io_bind_def io_return_def truetype_def split: option.splits)

lemma test_image_font_eq:
  "test_image_font ps w =
     (case find (path_exists w) ps of
        None \<Rightarrow> (Inr DefaultFont, w)
      | Some p \<Rightarrow>
          (case load_error w p 40 of
             Some e \<Rightarrow> (Inr DefaultFont, w)
           | None \<Rightarrow> (Inr (FreeTypeFont p 40), w\<lparr>handles := (p, 40) # handles w\<rparr>)))"
  by (simp add: test_image_font_def test_image_font_try_def io_try_def io_bind_def io_return_def
      font_paths_loop_find load_default_def split: option.splits)

lemma event_fonts_eq:
  "event_fonts ps w =
     (case find (path_exists w) ps of
        None \<Rightarrow> (Inr (DefaultFont, DefaultFont), w)
      | Some p \<Rightarrow>
          (case load_error w p 32 of
             Some e \<Rightarrow> (Inr (DefaultFont, DefaultFont), w)
           | None \<Rightarrow>
               (case load_error w p 24 of
                  Some e \<Rightarrow> (Inr (DefaultFont, DefaultFont), w\<lparr>handles := (p, 32) # handles w\<rparr>)
                | None \<Rightarrow> (Inr (FreeTypeFont p 32, FreeTypeFont p 24),
                     w\<lparr>handles := (p, 24) # (p, 32) # handles w\<rparr>))))"
  by (simp add: event_fonts_def event_fonts_try_def io_try_def io_bind_def io_return_def
      font_paths_loop_find load_default_def truetype_def Let_def split: option.splits)

lemma concert_fonts_eq:
  "concert_fonts ps w =
     (case find (path_exists w) ps of
        None \<Rightarrow> (Inr (DefaultFont, DefaultFont, DefaultFont), w)
      | Some p \<Rightarrow>
          (case load_error w p 48 of
             Some e \<Rightarrow> (Inr (DefaultFont, DefaultFont, DefaultFont), w)
           | None \<Rightarrow>
               (case load_error w p 36 of
                  Some e \<Rightarrow> (Inr (DefaultFont, DefaultFont, DefaultFont),
                     w\<lparr>handles := (p, 48) # handles w\<rparr>)
                | None \<Rightarrow>
                    (case load_error w p 28 of
                       Some e \<Rightarrow> (Inr (DefaultFont, DefaultFont, DefaultFont),
                          w\<lparr>handles := (p, 36) # (p, 48) # handles w\<rparr>)
                     | None \<Rightarrow> (Inr (FreeTypeFont p 48, FreeTypeFont p 36, FreeTypeFont p 28),
                          w\<lparr>handles := (p, 28) # (p, 36) # (p, 48) # handles w\<rparr>)))))"
  by (simp add: concert_fonts_def concert_fonts_try_def io_try_def io_bind_def io_return_def
      font_paths_loop_find load_default_def truetype_def Let_def split: option.splits)

lemma meeting_fonts_eq:
  "meeting_fonts ps w =
     (case find (path_exists w) ps of
        None \<Rightarrow> (Inr (DefaultFont, DefaultFont), w)
      | Some p \<Rightarrow>
          (case load_error w p 24 of
             Some e \<Rightarrow> (Inr (DefaultFont, DefaultFont), w)
           | None \<Rightarrow>
               (case load_error w p 28 of
                  Some e \<Rightarrow> (Inr (DefaultFont, DefaultFont), w\<lparr>handles := (p, 24) # handles w\<rparr>)
                | None \<Rightarrow> (Inr (FreeTypeFont p 28, FreeTypeFont p 24),
                     w\<lparr>handles := (p, 28) # (p, 24) # handles w\<rparr>))))"
  by (simp add: meeting_fonts_def meeting_fonts_try_def io_try_def io_bind_def io_return_def
      font_paths_loop_find load_default_def truetype_def Let_def split: option.splits)

text \<open>A font block leaves the facts about fonts and the output files as they were.\<close>

lemma event_fonts_frame:
  "path_exists (snd (event_fonts ps w)) = path_exists w"
  "load_error (snd (event_fonts ps w)) = load_error w"
  "dirs (snd (event_fonts ps w)) = dirs w"
  "readonly (snd (event_fonts ps w)) = readonly w"
  "files (snd (event_fonts ps w)) = files w"
  by (simp_all add: event_fonts_eq split: option.splits)

lemma concert_fonts_frame:
  "path_exists (snd (concert_fonts ps w)) = path_exists w"
  "load_error (snd (concert_fonts ps w)) = load_error w"
  "dirs (snd (concert_fonts ps w)) = dirs w"
  "readonly (snd (concert_fonts ps w)) = readonly w"
  "files (snd (concert_fonts ps w)) = files w"
  by (simp_all add: concert_fonts_eq split: option.splits)

lemma meeting_fonts_frame:
  "path_exists (snd (meeting_fonts ps w)) = path_exists w"
  "load_error (snd (meeting_fonts ps w)) = load_error w"
  "dirs (snd (meeting_fonts ps w)) = dirs w"
  "readonly (snd (meeting_fonts ps w)) = readonly w"
  "files (snd (meeting_fonts ps w)) = files w"
  by (simp_all add: meeting_fonts_eq split: option.splits)

lemma test_image_font_frame:
  "path_exists (snd (test_image_font ps w)) = path_exists w"
  "load_error (snd (test_image_font ps w)) = load_error w"
  "dirs (snd (test_image_font ps w)) = dirs w"
  "readonly (snd (test_image_font ps w)) = readonly w"
  "files (snd (test_image_font ps w)) = files w"
  by (simp_all add: test_image_font_eq split: option.splits)

text \<open>The fonts a block gives depend on the font facts of the host only.\<close>

lemma event_fonts_cong:
  "path_exists w' = path_exists w \<Longrightarrow> load_error w' = load_error w \<Longrightarrow>
   fst (event_fonts ps w') = fst (event_fonts ps w)"
  by (simp add: event_fonts_eq split: option.splits)

subsection \<open>The loops over lines\<close>

lemma concert_info_loop_length:
  "length (fst (concert_info_loop width bf lines (c, y))) = length c + length lines"
  by (induction lines arbitrary: c y) (simp_all add: Let_def)

lemma concert_info_loop_old:
  "i < length c \<Longrightarrow> fst (concert_info_loop width bf lines (c, y)) ! i = c ! i"
  by (induction lines arbitrary: c y) (simp_all add: Let_def nth_append)

lemma concert_info_loop_nth:
  "i < length lines \<Longrightarrow>
   fst (concert_info_loop width bf lines (c, y)) ! (length c + i) =
     DrawText (if startswith (lines ! i) bullet then 50 else width div 2 - 150, y + 40 * int i)
       (lines ! i)
       (if contains (lines ! i) kw_ticket \<or> contains (lines ! i) kw_price then gold else white)
       bf None"
proof (induction lines arbitrary: c y i)
  case Nil
  then show ?case by simp
next
  case (Cons l ls)
  show ?case
  proof (cases i)
    case 0
    then show ?thesis
      by (simp add: Let_def concert_info_loop_old)
  next
    case (Suc j)
    with Cons.prems have j: "j < length ls" by simp
    let ?cmd = "DrawText (if startswith l bullet then 50 else width div 2 - 150, y) l
       (if contains l kw_ticket \<or> contains l kw_price then gold else white) bf None"
    from Cons.IH [OF j, of "c @ [?cmd]" "y + 40"] Suc
    show ?thesis
      by (simp add: Let_def algebra_simps)
  qed
qed

lemma details_loop_length:
  "length (fst (details_loop bf lines (c, y))) = length c + length lines"
  by (induction lines arbitrary: c y) simp_all

lemma details_loop_cursor:
  "snd (details_loop bf lines (c, y)) = y + 35 * int (length lines)"
  by (induction lines arbitrary: c y) simp_all

lemma details_loop_old:
  "i < length c \<Longrightarrow> fst (details_loop bf lines (c, y)) ! i = c ! i"
  by (induction lines arbitrary: c y) (simp_all add: nth_append)

lemma details_loop_nth:
  "i < length lines \<Longrightarrow>
   fst (details_loop bf lines (c, y)) ! (length c + i) =
     DrawText (50, y + 35 * int i) (lines ! i) black bf None"
proof (induction lines arbitrary: c y i)
  case Nil
  then show ?case by simp
next
  case (Cons l ls)
  show ?case
  proof (cases i)
    case 0
    then show ?thesis
      by (simp add: details_loop_old)
  next
    case (Suc j)
    with Cons.prems have j: "j < length ls" by simp
    from Cons.IH [OF j, of "c @ [DrawText (50, y) l black bf None]" "y + 35"] Suc
    show ?thesis
      by (simp add: algebra_simps)
  qed
qed

text \<open>Every bulleted line of \<^verbatim>\<open>test-images/test-event.py\<close> is centred.\<close>

lemma test_event_draw_bullets:
  "\<forall>c \<in> set (test_event_draw (tf, bf, sf)).
     (case text_payload c of Some s \<Rightarrow> startswith s bullet | None \<Rightarrow> False) \<longrightarrow>
       text_x c = Some 400 \<and> text_anchor c = Some (ascii ''mt'')"
  by (simp add: test_event_draw_def Let_def mt_def ascii_def bullet_def)

subsection \<open>Corner ornaments\<close>

lemma corners_loop_map:
  "corners_loop draw cs accent pts canvas =
     Inr (canvas @ map (\<lambda>corner.
       if arc_error draw corner (fst corner + cs, snd corner + cs) = None
       then DrawArc corner (fst corner + cs, snd corner + cs) 0 90 accent 3
       else DrawRectangle corner (fst corner + 10, snd corner + 10) (Some accent) None 1) pts)"
  by (induction pts arbitrary: canvas) (auto simp: draw_arc_def split: option.splits)

subsection \<open>Centring on the poster\<close>

lemma get_centered_x_width:
  "get_centered_x draw width text font =
     err_bind (location_width_of draw text font) (\<lambda>mw. Inr ((width - mw) div 2))"
  by (simp add: get_centered_x_def location_width_of_def err_bind_def Let_def
      split: sum.splits prod.splits)

lemma korean_poster_draw_title:
  assumes "korean_poster_draw draw (title_font, subtitle_font, body_font, small_font) = Inr canvas"
  shows "\<exists>x rest. get_centered_x draw 800 event_title title_font = Inr x
           \<and> canvas = DrawText (x, 100) event_title (RGB 0 0 0) title_font None # rest"
  using assms
  by (auto simp: korean_poster_draw_def err_bind_def Let_def corners_loop_map split: sum.splits)

subsection \<open>Output files\<close>















section \<open>The claims\<close>

subsection \<open>Centred text on the poster\<close>

text \<open>
  C1. The centring routine \<open>get_centered_x\<close> returns \<open>(width - measured_width) div 2\<close>, where
  the measured width is what \<^verbatim>\<open>textbbox\<close> or else \<^verbatim>\<open>textsize\<close> reports. When the
  measured width is at most the canvas width, \<open>0 \<le> x \<le> width - measured_width\<close>. When it is
  larger, \<open>x\<close> is negative: nothing clamps it, and \<^verbatim>\<open>create_korean_poster\<close> hands it to
  \<^verbatim>\<open>draw.text\<close> as it is (shown for the title, the first command of the poster).
\<close>

theorem centered_x_range:
  "(get_centered_x draw width text font = Inr x \<longrightarrow>
      (\<exists>measured_width. location_width_of draw text font = Inr measured_width
         \<and> x = (width - measured_width) div 2
         \<and> (measured_width \<le> width \<longrightarrow> 0 \<le> x \<and> x \<le> width - measured_width)
         \<and> (width < measured_width \<longrightarrow> x < 0)))
   \<and> (korean_poster_draw draw (title_font, subtitle_font, body_font, small_font) = Inr canvas \<longrightarrow>
        (\<exists>title_x rest. get_centered_x draw 800 event_title title_font = Inr title_x
           \<and> canvas = DrawText (title_x, 100) event_title (RGB 0 0 0) title_font None # rest))"
proof (intro conjI impI)
  assume gx: "get_centered_x draw width text font = Inr x"
  then obtain mw where mw: "location_width_of draw text font = Inr mw"
    and x: "x = (width - mw) div 2"
    by (auto simp: get_centered_x_width err_bind_def split: sum.splits)
  have "mw \<le> width \<longrightarrow> 0 \<le> x \<and> x \<le> width - mw" using x by auto
  moreover have "width < mw \<longrightarrow> x < 0" using x by auto
  ultimately show "\<exists>measured_width. location_width_of draw text font = Inr measured_width
         \<and> x = (width - measured_width) div 2
         \<and> (measured_width \<le> width \<longrightarrow> 0 \<le> x \<and> x \<le> width - measured_width)
         \<and> (width < measured_width \<longrightarrow> x < 0)"
    using mw x by blast
next
  assume "korean_poster_draw draw (title_font, subtitle_font, body_font, small_font) = Inr canvas"
  then show "\<exists>title_x rest. get_centered_x draw 800 event_title title_font = Inr title_x
           \<and> canvas = DrawText (title_x, 100) event_title (RGB 0 0 0) title_font None # rest"
    by (rule korean_poster_draw_title)
qed

text \<open>
  An installation that measures the title at 150 pixels: it is drawn at \<open>x = 325\<close>.
\<close>

theorem centered_x_range_witness:
  "get_centered_x modern_pil 800 event_title DefaultFont = Inr 325
   \<and> location_width_of modern_pil event_title DefaultFont = Inr 150
   \<and> (150::int) \<le> 800 \<and> (0::int) \<le> 325 \<and> (325::int) \<le> 800 - 150
   \<and> (case korean_poster_draw modern_pil (DefaultFont, DefaultFont, DefaultFont, DefaultFont) of
        Inl e \<Rightarrow> False
      | Inr canvas \<Rightarrow> hd canvas = DrawText (325, 100) event_title (RGB 0 0 0) DefaultFont None)"
proof -
  have g: "get_centered_x modern_pil 800 event_title DefaultFont = Inr 325"
    by (simp add: get_centered_x_def modern_pil_def event_title_def)
  have m: "location_width_of modern_pil event_title DefaultFont = Inr 150"
    by (simp add: location_width_of_def modern_pil_def event_title_def)
  obtain canvas where
    c: "korean_poster_draw modern_pil (DefaultFont, DefaultFont, DefaultFont, DefaultFont) = Inr canvas"
    by (simp add: korean_poster_draw_def get_centered_x_def location_width_of_def err_bind_def
        modern_pil_def Let_def corners_loop_map)
  from centered_x_range [of modern_pil 800 event_title DefaultFont 325
      DefaultFont DefaultFont DefaultFont DefaultFont canvas] g m c
  show ?thesis by auto
qed

text \<open>
  An installation that measures the title at 900 pixels, wider than the canvas of 800: the
  title is drawn at \<open>x = -50\<close>, not at 0.
\<close>

theorem centered_x_counterexample:
  "get_centered_x wide_pil 800 event_title DefaultFont = Inr (- 50)
   \<and> location_width_of wide_pil event_title DefaultFont = Inr 900
   \<and> (case korean_poster_draw wide_pil (DefaultFont, DefaultFont, DefaultFont, DefaultFont) of
        Inl e \<Rightarrow> False
      | Inr canvas \<Rightarrow> text_x (hd canvas) = Some (- 50) \<and> text_payload (hd canvas) = Some event_title)"
  by (simp add: korean_poster_draw_def get_centered_x_def location_width_of_def err_bind_def
      wide_pil_def Let_def corners_loop_map event_title_def)

subsection \<open>Blank lines in the detail loop\<close>

text \<open>
  C2. The loop over \<^verbatim>\<open>details\<close> in \<^verbatim>\<open>create_test_event_image\<close> draws one text per
  line, a blank line included (with the empty string, which paints nothing), at \<open>x = 50\<close> and
  \<open>y = start + 35 * i\<close> for line \<open>i\<close>. For the three example lines and a start of 120 it
  draws the empty string at \<open>(50, 120)\<close>, the date line at \<open>(50, 155)\<close> and the location line
  at \<open>(50, 190)\<close>, and leaves the cursor at 225.
\<close>

theorem details_loop_every_line:
  "(\<forall>i < length lines.
      fst (details_loop body_font lines (canvas, y)) ! (length canvas + i)
        = DrawText (50, y + 35 * int i) (lines ! i) (ColorName (ascii ''black'')) body_font None)
   \<and> length (fst (details_loop body_font lines (canvas, y))) = length canvas + length lines
   \<and> snd (details_loop body_font lines (canvas, y)) = y + 35 * int (length lines)
   \<and> details_loop body_font example_lines ([], 120)
       = ([DrawText (50, 120) [] (ColorName (ascii ''black'')) body_font None,
           DrawText (50, 155) (ascii ''Date: 2025-02-15'') (ColorName (ascii ''black''))
             body_font None,
           DrawText (50, 190) (ascii ''Location: Hall A'') (ColorName (ascii ''black''))
             body_font None], 225)"
  by (simp add: details_loop_nth details_loop_length details_loop_cursor example_lines_def
      black_def)

text \<open>
  The example lines themselves, with the default font.
\<close>

theorem details_loop_every_line_witness:
  "0 < length example_lines
   \<and> fst (details_loop DefaultFont example_lines ([], 120)) ! 0
       = DrawText (50, 120) [] (ColorName (ascii ''black'')) DefaultFont None
   \<and> fst (details_loop DefaultFont example_lines ([], 120)) ! 2
       = DrawText (50, 190) (ascii ''Location: Hall A'') (ColorName (ascii ''black''))
           DefaultFont None"
proof -
  have a: "length example_lines = 3" by (simp add: example_lines_def)
  have b: "example_lines ! 0 = []" "example_lines ! 2 = ascii ''Location: Hall A''"
    by (simp_all add: example_lines_def)
  from details_loop_every_line [of example_lines DefaultFont "[]" 120] a b
  show ?thesis by auto
qed

text \<open>
  The loop does not skip the blank line: what it draws for the example is not the two
  commands \<open>(50, 120)\<close> for the date and \<open>(50, 155)\<close> for the location. It draws three
  texts, the first of them the empty string at \<open>(50, 120)\<close>, and the date at \<open>y = 155\<close>.
\<close>

theorem blank_line_counterexample:
  "fst (details_loop DefaultFont example_lines ([], 120))
     \<noteq> [DrawText (50, 120) (ascii ''Date: 2025-02-15'') (ColorName (ascii ''black''))
           DefaultFont None,
         DrawText (50, 155) (ascii ''Location: Hall A'') (ColorName (ascii ''black''))
           DefaultFont None]
   \<and> map text_payload (fst (details_loop DefaultFont example_lines ([], 120)))
       = [Some [], Some (ascii ''Date: 2025-02-15''), Some (ascii ''Location: Hall A'')]
   \<and> map text_x (fst (details_loop DefaultFont example_lines ([], 120)))
       = [Some 50, Some 50, Some 50]
   \<and> map text_y (fst (details_loop DefaultFont example_lines ([], 120)))
       = [Some 120, Some 155, Some 190]"
  by (simp add: example_lines_def)

subsection \<open>Resolving a font\<close>

text \<open>
  C3. The font blocks of \<^verbatim>\<open>create_test_image\<close> and \<^verbatim>\<open>create_test_event_image\<close> never
  raise, whatever the list of candidates and the host. They load the first candidate that
  exists and no other: if no candidate exists the result is the default font, and if a load
  of that first existing candidate fails, the error is swallowed and the result is the default
  font as well. The candidates after it are not tried.
\<close>

theorem font_resolution_never_raises:
  "fst (test_image_font font_paths w) =
     Inr (case find (path_exists w) font_paths of
            None \<Rightarrow> DefaultFont
          | Some p \<Rightarrow> (case load_error w p 40 of None \<Rightarrow> FreeTypeFont p 40 | Some e \<Rightarrow> DefaultFont))
   \<and> fst (event_fonts font_paths w) =
     Inr (case find (path_exists w) font_paths of
            None \<Rightarrow> (DefaultFont, DefaultFont)
          | Some p \<Rightarrow>
              (case (load_error w p 32, load_error w p 24) of
                 (None, None) \<Rightarrow> (FreeTypeFont p 32, FreeTypeFont p 24)
               | _ \<Rightarrow> (DefaultFont, DefaultFont)))
   \<and> ((\<forall>p \<in> set font_paths. \<not> path_exists w p) \<longrightarrow>
        fst (test_image_font font_paths w) = Inr DefaultFont
        \<and> fst (event_fonts font_paths w) = Inr (DefaultFont, DefaultFont))"
proof -
  have none: "find (path_exists w) font_paths = None"
    if "\<forall>p \<in> set font_paths. \<not> path_exists w p"
    using that by (simp add: find_None_iff)
  show ?thesis
    by (auto simp: test_image_font_eq event_fonts_eq none split: option.splits)
qed

text \<open>
  A host without any font.
\<close>

theorem font_resolution_never_raises_witness:
  "\<not> list_ex (path_exists bare_host) test_image_font_paths
   \<and> fst (test_image_font test_image_font_paths bare_host) = Inr DefaultFont
   \<and> fst (event_fonts test_image_font_paths bare_host) = Inr (DefaultFont, DefaultFont)"
proof -
  have a: "\<forall>p \<in> set test_image_font_paths. \<not> path_exists bare_host p"
    by (simp add: bare_host_def)
  with font_resolution_never_raises [of test_image_font_paths bare_host]
  have r: "fst (test_image_font test_image_font_paths bare_host) = Inr DefaultFont
     \<and> fst (event_fonts test_image_font_paths bare_host) = Inr (DefaultFont, DefaultFont)"
    by blast
  from a have "\<not> list_ex (path_exists bare_host) test_image_font_paths"
    by (simp add: list_ex_iff)
  with r show ?thesis by blast
qed

text \<open>
  On a host where the first candidate exists but does not load, and Helvetica, a later
  candidate, exists and loads, both blocks give the default font, while the first present and
  loadable candidate is Helvetica.
\<close>

theorem font_resolution_counterexample:
  "fst (test_image_font test_image_font_paths broken_first_host) = Inr DefaultFont
   \<and> resolve_spec broken_first_host test_image_font_paths 40
       = FreeTypeFont (ascii ''/System/Library/Fonts/Helvetica.ttc'') 40
   \<and> fst (event_fonts event_font_paths broken_first_host) = Inr (DefaultFont, DefaultFont)
   \<and> resolve_spec broken_first_host event_font_paths 32
       = FreeTypeFont (ascii ''/System/Library/Fonts/Helvetica.ttc'') 32"
proof -
  have "load_error broken_first_host (ascii ''/System/Library/Fonts/AppleSDGothicNeo.ttc'') pt
          = Some OSError" for pt
    by (simp add: broken_first_host_def)
  then have code: "fst (test_image_font test_image_font_paths broken_first_host) = Inr DefaultFont"
    "fst (event_fonts event_font_paths broken_first_host) = Inr (DefaultFont, DefaultFont)"
    by (simp_all add: test_image_font_eq event_fonts_eq broken_first_host_find)
  have spec: "resolve_spec broken_first_host test_image_font_paths 40
       = FreeTypeFont (ascii ''/System/Library/Fonts/Helvetica.ttc'') 40"
    "resolve_spec broken_first_host event_font_paths 32
       = FreeTypeFont (ascii ''/System/Library/Fonts/Helvetica.ttc'') 32"
    by (simp_all add: test_image_font_paths_def event_font_paths_def broken_first_host_def
        ascii_eq_iff)
  from code spec show ?thesis by simp
qed

subsection \<open>Bulleted lines\<close>

text \<open>
  C4. In the detail loop of \<^verbatim>\<open>create_concert_poster\<close> every line that starts with the
  bullet is drawn at the left margin, \<open>x = 50\<close>. In \<^verbatim>\<open>test-images/test-event.py\<close> the
  bulleted lines are drawn like every other line of that script, centred: at
  \<open>x = width div 2 = 400\<close> with the anchor \<^verbatim>\<open>mt\<close>.
\<close>

theorem bulleted_lines_x:
  "(\<forall>i < length lines. startswith (lines ! i) bullet \<longrightarrow>
      text_payload (fst (concert_info_loop width bf lines (canvas, y)) ! (length canvas + i))
        = Some (lines ! i)
      \<and> text_x (fst (concert_info_loop width bf lines (canvas, y)) ! (length canvas + i))
        = Some 50)
   \<and> (\<forall>c \<in> set (test_event_draw (title_font, body_font, small_font)).
        (case text_payload c of Some s \<Rightarrow> startswith s bullet | None \<Rightarrow> False) \<longrightarrow>
          text_x c = Some (800 div 2) \<and> text_anchor c = Some (ascii ''mt''))"
  using test_event_draw_bullets [of title_font body_font small_font]
  by (simp add: concert_info_loop_nth)

text \<open>
  The first bulleted line of each script.
\<close>

theorem bulleted_lines_x_witness:
  "8 < length concert_info \<and> startswith (concert_info ! 8) bullet
   \<and> text_x (fst (concert_info_loop 800 DefaultFont concert_info ([], 300)) ! 8) = Some 50
   \<and> text_x (test_event_draw (DefaultFont, DefaultFont, DefaultFont) ! 8) = Some 400
   \<and> text_payload (test_event_draw (DefaultFont, DefaultFont, DefaultFont) ! 8)
        = Some (bullet @ ascii '' AI & Machine Learning'')"
proof -
  have a: "8 < length concert_info" by (simp add: concert_info_def)
  have b: "startswith (concert_info ! 8) bullet" by (simp add: concert_info_def bullet_def)
  have c: "test_event_draw (DefaultFont, DefaultFont, DefaultFont) ! 8
     = DrawText (400, 460) (bullet @ ascii '' AI & Machine Learning'') (RGB 0 0 0) DefaultFont
         (Some (ascii ''mt''))"
    by (simp add: test_event_draw_def Let_def mt_def)
  have d: "test_event_draw (DefaultFont, DefaultFont, DefaultFont) ! 8
     \<in> set (test_event_draw (DefaultFont, DefaultFont, DefaultFont))"
    by (simp add: test_event_draw_def Let_def)
  from bulleted_lines_x [of concert_info 800 DefaultFont "[]" 300 DefaultFont DefaultFont DefaultFont]
    a b c d
  show ?thesis by (auto simp: bullet_def)
qed

text \<open>
  A bulleted line that is not at the left margin: the first one of
  \<^verbatim>\<open>test-images/test-event.py\<close>.
\<close>

theorem bulleted_lines_counterexample:
  "DrawText (400, 460) (bullet @ ascii '' AI & Machine Learning'') (RGB 0 0 0) DefaultFont
     (Some (ascii ''mt''))
     \<in> set (test_event_draw (DefaultFont, DefaultFont, DefaultFont))
   \<and> startswith (bullet @ ascii '' AI & Machine Learning'') bullet"
  by (simp add: test_event_draw_def Let_def mt_def bullet_def)

subsection \<open>The colour of a detail line\<close>

text \<open>
  C5. In the detail loop of \<^verbatim>\<open>create_concert_poster\<close> a line that contains the ticket
  keyword or the price keyword is drawn in the accent colour \<^verbatim>\<open>#f39c12\<close>; every other line
  is drawn in the default colour \<^verbatim>\<open>white\<close>. A line is a plain string there and carries no
  colour of its own, so nothing can override the rule.
\<close>

theorem concert_highlight_color:
  assumes "i < length lines"
  shows "text_fill (fst (concert_info_loop width bf lines (canvas, y)) ! (length canvas + i))
           = Some (if contains (lines ! i) kw_ticket \<or> contains (lines ! i) kw_price
                   then ColorName (ascii ''#f39c12'') else ColorName (ascii ''white''))"
  using assms by (simp add: concert_info_loop_nth gold_def white_def)

text \<open>
  The line that announces the ticket sale, line 13 of \<^verbatim>\<open>concert_info\<close>, and the date
  line, line 1, which has neither keyword.
\<close>

theorem concert_highlight_color_witness:
  "13 < length concert_info \<and> contains (concert_info ! 13) kw_ticket
   \<and> text_fill (fst (concert_info_loop 800 DefaultFont concert_info ([], 300)) ! 13)
        = Some (ColorName (ascii ''#f39c12''))
   \<and> \<not> contains (concert_info ! 1) kw_ticket \<and> \<not> contains (concert_info ! 1) kw_price
   \<and> text_fill (fst (concert_info_loop 800 DefaultFont concert_info ([], 300)) ! 1)
        = Some (ColorName (ascii ''white''))"
proof -
  have a: "13 < length concert_info" "1 < length concert_info"
    by (simp_all add: concert_info_def)
  have b: "contains (concert_info ! 13) kw_ticket"
    "\<not> contains (concert_info ! 1) kw_ticket" "\<not> contains (concert_info ! 1) kw_price"
    by (simp_all add: concert_info_def kw_ticket_def kw_price_def)
  from concert_highlight_color [OF a(1), of 800 DefaultFont "[]" 300]
    concert_highlight_color [OF a(2), of 800 DefaultFont "[]" 300] a b
  show ?thesis by simp
qed

subsection \<open>Writing the image\<close>




subsection \<open>Measuring text\<close>

text \<open>
  C7. When \<^verbatim>\<open>textbbox\<close> is missing or fails, its error is swallowed and the width comes
  from \<^verbatim>\<open>textsize\<close>, in \<open>get_centered_x\<close> and in the measurement of the location line
  alike. Both complete without an error whenever one of the two calls succeeds. The fallback
  is not guarded itself: when \<^verbatim>\<open>textbbox\<close> fails and \<^verbatim>\<open>textsize\<close> fails too, the error
  of \<^verbatim>\<open>textsize\<close> reaches the caller.
\<close>

theorem measurement_failover:
  "(textbbox draw (0, 0) text font = Inl e \<longrightarrow>
      get_centered_x draw width text font
        = (case textsize draw text font of
             Inl e' \<Rightarrow> Inl e' | Inr sz \<Rightarrow> Inr ((width - fst sz) div 2))
      \<and> location_width_of draw text font
        = (case textsize draw text font of Inl e' \<Rightarrow> Inl e' | Inr sz \<Rightarrow> Inr (fst sz)))
   \<and> ((\<exists>box. textbbox draw (0, 0) text font = Inr box) \<or> (\<exists>sz. textsize draw text font = Inr sz)
        \<longrightarrow> (\<exists>x. get_centered_x draw width text font = Inr x)
          \<and> (\<exists>mw. location_width_of draw text font = Inr mw))"
  by (auto simp: get_centered_x_def location_width_of_def err_bind_def Let_def
      split: sum.splits prod.splits)

text \<open>
  An old installation: no \<^verbatim>\<open>textbbox\<close>, and \<^verbatim>\<open>textsize\<close> works.
\<close>

theorem measurement_failover_witness:
  "textbbox old_pil (0, 0) event_title DefaultFont = Inl AttributeError
   \<and> textsize old_pil event_title DefaultFont = Inr (150, 20)
   \<and> get_centered_x old_pil 800 event_title DefaultFont = Inr 325
   \<and> location_width_of old_pil event_title DefaultFont = Inr 150"
proof -
  have a: "textbbox old_pil (0, 0) event_title DefaultFont = Inl AttributeError"
    by (simp add: old_pil_def)
  have b: "textsize old_pil event_title DefaultFont = Inr (150, 20)"
    by (simp add: old_pil_def event_title_def)
  from measurement_failover [of old_pil event_title DefaultFont AttributeError 800] a b
  show ?thesis by simp
qed

text \<open>
  An installation without \<^verbatim>\<open>textsize\<close> whose default font cannot measure Korean
  text: centring the title raises, and so does the whole poster.
\<close>

theorem measurement_counterexample:
  "get_centered_x bitmap_pil 800 event_title DefaultFont = Inl AttributeError
   \<and> textbbox bitmap_pil (0, 0) event_title DefaultFont = Inl UnicodeEncodeError
   \<and> textsize bitmap_pil event_title DefaultFont = Inl AttributeError
   \<and> korean_poster_draw bitmap_pil (DefaultFont, DefaultFont, DefaultFont, DefaultFont)
       = Inl AttributeError"
  by (simp add: korean_poster_draw_def get_centered_x_def err_bind_def bitmap_pil_def
      event_title_def)

subsection \<open>Resolving a font twice\<close>

text \<open>
  C8. The fonts that the font block of \<^verbatim>\<open>create_test_event_image\<close> gives depend only on
  the list of candidates and on which paths exist and load on the host. Hosts that agree on
  these facts give the same fonts, whatever fonts were opened before; so resolving a second
  time, or after another generator has resolved its own fonts, gives the same result.
\<close>

theorem font_resolution_deterministic:
  "(path_exists w' = path_exists w \<and> load_error w' = load_error w \<longrightarrow>
      fst (event_fonts font_paths w') = fst (event_fonts font_paths w))
   \<and> fst (event_fonts font_paths (snd (event_fonts font_paths w))) = fst (event_fonts font_paths w)
   \<and> fst (event_fonts font_paths (snd (concert_fonts other_paths w)))
       = fst (event_fonts font_paths w)
   \<and> fst (event_fonts font_paths (snd (meeting_fonts other_paths w)))
       = fst (event_fonts font_paths w)"
proof (intro conjI impI)
  assume "path_exists w' = path_exists w \<and> load_error w' = load_error w"
  then show "fst (event_fonts font_paths w') = fst (event_fonts font_paths w)"
    by (intro event_fonts_cong) simp_all
next
  show "fst (event_fonts font_paths (snd (event_fonts font_paths w)))
          = fst (event_fonts font_paths w)"
    by (rule event_fonts_cong) (simp_all add: event_fonts_frame)
next
  show "fst (event_fonts font_paths (snd (concert_fonts other_paths w)))
          = fst (event_fonts font_paths w)"
    by (rule event_fonts_cong) (simp_all add: concert_fonts_frame)
next
  show "fst (event_fonts font_paths (snd (meeting_fonts other_paths w)))
          = fst (event_fonts font_paths w)"
    by (rule event_fonts_cong) (simp_all add: meeting_fonts_frame)
qed

text \<open>
  Two hosts that differ in the fonts opened so far, and a resolution after that of the
  concert poster.
\<close>

theorem font_resolution_deterministic_witness:
  "path_exists (broken_first_host\<lparr>handles := [([], 12)]\<rparr>) = path_exists broken_first_host
   \<and> load_error (broken_first_host\<lparr>handles := [([], 12)]\<rparr>) = load_error broken_first_host
   \<and> fst (event_fonts event_font_paths (broken_first_host\<lparr>handles := [([], 12)]\<rparr>))
       = fst (event_fonts event_font_paths broken_first_host)
   \<and> fst (event_fonts event_font_paths
            (snd (concert_fonts concert_font_paths broken_first_host)))
       = fst (event_fonts event_font_paths broken_first_host)"
  using font_resolution_deterministic
    [of "broken_first_host\<lparr>handles := [([], 12)]\<rparr>" broken_first_host event_font_paths
        concert_font_paths]
  by simp

subsection \<open>Corner ornaments\<close>

text \<open>
  C9. Drawing the four corner ornaments of the poster never raises. Each corner gets a
  quarter arc (from 0 to 90 degrees, in a box of 50 pixels), or, where \<^verbatim>\<open>draw.arc\<close>
  raises, a filled square of 10 pixels at the same corner.
\<close>

theorem corner_ornaments_never_raise:
  "corners_loop draw 50 accent_color (corners 800 1200 50) canvas =
     Inr (canvas @ map (\<lambda>corner.
       if arc_error draw corner (fst corner + 50, snd corner + 50) = None
       then DrawArc corner (fst corner + 50, snd corner + 50) 0 90 accent_color 3
       else DrawRectangle corner (fst corner + 10, snd corner + 10) (Some accent_color) None 1)
       [(50, 50), (700, 50), (50, 1100), (700, 1100)])"
  by (simp add: corners_loop_map corners_def)

text \<open>
  An installation whose \<^verbatim>\<open>arc\<close> fails draws four squares; one whose \<^verbatim>\<open>arc\<close> works
  draws four arcs.
\<close>

theorem corner_ornaments_never_raise_witness:
  "corners_loop old_pil 50 (RGB 220 20 60) (corners 800 1200 50) [] =
     Inr [DrawRectangle (50, 50) (60, 60) (Some (RGB 220 20 60)) None 1,
          DrawRectangle (700, 50) (710, 60) (Some (RGB 220 20 60)) None 1,
          DrawRectangle (50, 1100) (60, 1110) (Some (RGB 220 20 60)) None 1,
          DrawRectangle (700, 1100) (710, 1110) (Some (RGB 220 20 60)) None 1]
   \<and> corners_loop modern_pil 50 (RGB 220 20 60) (corners 800 1200 50) [] =
     Inr [DrawArc (50, 50) (100, 100) 0 90 (RGB 220 20 60) 3,
          DrawArc (700, 50) (750, 100) 0 90 (RGB 220 20 60) 3,
          DrawArc (50, 1100) (100, 1150) 0 90 (RGB 220 20 60) 3,
          DrawArc (700, 1100) (750, 1150) 0 90 (RGB 220 20 60) 3]"
  using corner_ornaments_never_raise [of old_pil "RGB 220 20 60" "[]"]
    corner_ornaments_never_raise [of modern_pil "RGB 220 20 60" "[]"]
  by (simp add: old_pil_def modern_pil_def)

subsection \<open>Lines without a bullet\<close>

text \<open>
  C10. In the detail loop of \<^verbatim>\<open>create_concert_poster\<close> a line that does not start with
  the bullet is drawn at \<open>x = width div 2 - 150\<close>, whatever it says: 250 on the canvas of 800.
  The loop takes no measurement of the text; it has no access to one.
\<close>

theorem concert_unbulleted_x_constant:
  assumes "i < length lines" and "\<not> startswith (lines ! i) bullet"
  shows "text_payload (fst (concert_info_loop width bf lines (canvas, y)) ! (length canvas + i))
           = Some (lines ! i)
       \<and> text_x (fst (concert_info_loop width bf lines (canvas, y)) ! (length canvas + i))
           = Some (width div 2 - 150)"
  using assms by (simp add: concert_info_loop_nth)

text \<open>
  The date line, line 1 of \<^verbatim>\<open>concert_info\<close>.
\<close>

theorem concert_unbulleted_x_constant_witness:
  "1 < length concert_info \<and> \<not> startswith (concert_info ! 1) bullet
   \<and> text_payload (fst (concert_info_loop 800 DefaultFont concert_info ([], 300)) ! 1)
        = Some (concert_info ! 1)
   \<and> text_x (fst (concert_info_loop 800 DefaultFont concert_info ([], 300)) ! 1) = Some 250"
proof -
  have a: "1 < length concert_info" by (simp add: concert_info_def)
  have b: "\<not> startswith (concert_info ! 1) bullet" by (simp add: concert_info_def bullet_def)
  from concert_unbulleted_x_constant [OF a b, of 800 DefaultFont "[]" 300] a b
  show ?thesis by simp
qed

end
